theory Spec2Isabelle
  imports Main "HOL-Library.Word"
begin

section \<open>JavaScript strings\<close>

text \<open>
  A JavaScript string is a sequence of UTF-16 code units. The regular expressions of the
  module carry neither the \<^verbatim>\<open>u\<close> nor the \<^verbatim>\<open>i\<close> flag, so they work on single code units.
  \<open>js\<close> turns an ASCII literal of the source into its code units.
\<close>

type_synonym jschar = "16 word"
type_synonym jsstring = "jschar list"

definition js :: "string \<Rightarrow> jsstring" where
  "js s = map of_char s"

text \<open>ECMAScript \<^verbatim>\<open>LineTerminator\<close>: LF, CR, LS, PS.\<close>

definition isLineTerminator :: "jschar \<Rightarrow> bool" where
  "isLineTerminator c = (c = 0x000A \<or> c = 0x000D \<or> c = 0x2028 \<or> c = 0x2029)"

text \<open>
  ECMAScript \<^verbatim>\<open>WhiteSpace\<close>: TAB, VT, FF, ZWNBSP and the code points of category Zs
  (space, no-break space, U+1680, U+2000 to U+200A, U+202F, U+205F, U+3000).
\<close>

definition isWhiteSpace :: "jschar \<Rightarrow> bool" where
  "isWhiteSpace c =
     (c = 0x0009 \<or> c = 0x000B \<or> c = 0x000C \<or> c = 0x0020 \<or> c = 0x00A0 \<or> c = 0x1680 \<or>
      (0x2000 \<le> c \<and> c \<le> 0x200A) \<or> c = 0x202F \<or> c = 0x205F \<or> c = 0x3000 \<or> c = 0xFEFF)"

text \<open>What \<^verbatim>\<open>String.prototype.trim\<close> removes and what \<^verbatim>\<open>\s\<close> matches.\<close>

definition isTrimmed :: "jschar \<Rightarrow> bool" where
  "isTrimmed c = (isWhiteSpace c \<or> isLineTerminator c)"

definition trim :: "jsstring \<Rightarrow> jsstring" where
  "trim s = rev (dropWhile isTrimmed (rev (dropWhile isTrimmed s)))"

definition startsWith :: "jsstring \<Rightarrow> jsstring \<Rightarrow> bool" where
  "startsWith s p = (take (length p) s = p)"

subsection \<open>The data-URL prefix: \<^verbatim>\<open>s.replace(/^data:(.*,)?/, '')\<close>\<close>

text \<open>
  \<open>dot_star_comma rest k\<close> is the backtracking of the group \<^verbatim>\<open>(.*,)\<close>: the star has taken
  \<open>k\<close> code units of \<open>rest\<close>; if a comma follows, the group matches \<open>k + 1\<close> code units,
  otherwise the star gives one code unit back. The result is the length of the group's match.
\<close>

fun dot_star_comma :: "jsstring \<Rightarrow> nat \<Rightarrow> nat option" where
  "dot_star_comma rest 0 = (if take 1 rest = js '','' then Some 1 else None)"
| "dot_star_comma rest (Suc k) =
     (if Suc k < length rest \<and> rest ! Suc k = of_char CHR '','' then Some (Suc (Suc k))
      else dot_star_comma rest k)"

text \<open>
  The pattern is anchored at the start and has no \<^verbatim>\<open>g\<close> flag: one replacement at most.
  The dot matches every code unit but a line terminator (no \<^verbatim>\<open>s\<close> flag), and the star is
  greedy: it first takes the whole run up to the first line terminator. When the optional
  group fails, only \<^verbatim>\<open>data:\<close> is removed.
\<close>

definition replace_data_prefix :: "jsstring \<Rightarrow> jsstring" where
  "replace_data_prefix s =
     (if startsWith s (js ''data:'') then
        (let rest = drop 5 s;
             n = length (takeWhile (\<lambda>c. \<not> isLineTerminator c) rest)
         in case dot_star_comma rest n of
              Some m \<Rightarrow> drop m rest
            | None \<Rightarrow> rest)
      else s)"

subsection \<open>The display name: \<^verbatim>\<open>name.replace(/[^a-zA-Z0-9\s\-()[\]]/g, 'X')\<close>\<close>

datatype class_atom = ClassRange jschar jschar | ClassChar jschar | ClassWhiteSpace

fun atom_matches :: "class_atom \<Rightarrow> jschar \<Rightarrow> bool" where
  "atom_matches (ClassRange lo hi) c = (lo \<le> c \<and> c \<le> hi)"
| "atom_matches (ClassChar d) c = (c = d)"
| "atom_matches ClassWhiteSpace c = isTrimmed c"

text \<open>The atoms of the class, in the order of the source: \<^verbatim>\<open>a-z A-Z 0-9 \s \- ( ) [ \]\<close>.\<close>

definition fileName_class :: "class_atom list" where
  "fileName_class =
     [ClassRange (of_char CHR ''a'') (of_char CHR ''z''),
      ClassRange (of_char CHR ''A'') (of_char CHR ''Z''),
      ClassRange (of_char CHR ''0'') (of_char CHR ''9''),
      ClassWhiteSpace,
      ClassChar (of_char CHR ''-''),
      ClassChar (of_char CHR ''(''),
      ClassChar (of_char CHR '')''),
      ClassChar (of_char CHR ''[''),
      ClassChar (of_char CHR '']'')]"

text \<open>The class is negated; with the \<^verbatim>\<open>g\<close> flag every matching code unit is replaced.\<close>

definition replace_fileName :: "jsstring \<Rightarrow> jsstring" where
  "replace_fileName s =
     map (\<lambda>c. if \<not> list_ex (\<lambda>a. atom_matches a c) fileName_class then of_char CHR ''X'' else c) s"

section \<open>Provider formats and content blocks\<close>

datatype ImageFormat = png | jpeg | gif | webp

datatype DocumentFormat = pdf | csv | doc | docx | xls | xlsx | html | "txt" | md

datatype VideoFormat = flv | mkv | mov | mpeg | mpg | mp4 | three_gp | webm | wmv

text \<open>
  The three format tables are object literals, and \<^verbatim>\<open>formatMap[key]\<close> is a property read:
  it gives the own property of that name, else the property the literal inherits from
  \<^verbatim>\<open>Object.prototype\<close>, else \<^verbatim>\<open>undefined\<close>.
\<close>

datatype 'a member = Own 'a | Proto jsstring | Missing

definition Object_prototype_names :: "jsstring list" where
  "Object_prototype_names =
     [js ''constructor'', js ''hasOwnProperty'', js ''isPrototypeOf'',
      js ''propertyIsEnumerable'', js ''toLocaleString'', js ''toString'', js ''valueOf'',
      js ''__proto__'', js ''__defineGetter__'', js ''__defineSetter__'',
      js ''__lookupGetter__'', js ''__lookupSetter__'']"

definition literal_get :: "(jsstring \<times> 'a) list \<Rightarrow> jsstring \<Rightarrow> 'a member" where
  "literal_get table key =
     (case map_of table key of
        Some v \<Rightarrow> Own v
      | None \<Rightarrow> if key \<in> set Object_prototype_names then Proto key else Missing)"

definition image_formatMap :: "(jsstring \<times> ImageFormat) list" where
  "image_formatMap =
     [(js ''image/png'', png), (js ''image/jpeg'', jpeg), (js ''image/jpg'', jpeg),
      (js ''image/gif'', gif), (js ''image/webp'', webp)]"

definition document_formatMap :: "(jsstring \<times> DocumentFormat) list" where
  "document_formatMap =
     [(js ''application/pdf'', pdf), (js ''text/csv'', csv), (js ''application/msword'', doc),
      (js ''application/vnd.openxmlformats-officedocument.wordprocessingml.document'', docx),
      (js ''application/vnd.ms-excel'', xls),
      (js ''application/vnd.openxmlformats-officedocument.spreadsheetml.sheet'', xlsx),
      (js ''text/html'', html), (js ''text/plain'', txt), (js ''text/markdown'', md)]"

definition video_formatMap :: "(jsstring \<times> VideoFormat) list" where
  "video_formatMap =
     [(js ''video/x-flv'', flv), (js ''video/x-matroska'', mkv), (js ''video/quicktime'', mov),
      (js ''video/mpeg'', mpeg), (js ''video/mp4'', mp4), (js ''video/3gpp'', three_gp),
      (js ''video/webm'', webm), (js ''video/x-ms-wmv'', wmv)]"

text \<open>
  \<^verbatim>\<open>String.prototype.toLowerCase\<close> follows the Unicode case mappings; it is a parameter of
  every function that calls it. \<open>ascii_toLowerCase\<close> is the mapping on ASCII strings.
\<close>

definition ascii_toLowerCase :: "jsstring \<Rightarrow> jsstring" where
  "ascii_toLowerCase s = map (\<lambda>c. if 0x41 \<le> c \<and> c \<le> 0x5A then c + 0x20 else c) s"

definition getImageFormatFromMimeType ::
  "(jsstring \<Rightarrow> jsstring) \<Rightarrow> jsstring \<Rightarrow> ImageFormat member" where
  "getImageFormatFromMimeType toLowerCase mimeType =
     literal_get image_formatMap (toLowerCase mimeType)"

definition getDocumentFormatFromMimeType ::
  "(jsstring \<Rightarrow> jsstring) \<Rightarrow> jsstring \<Rightarrow> DocumentFormat member" where
  "getDocumentFormatFromMimeType toLowerCase mimeType =
     literal_get document_formatMap (toLowerCase mimeType)"

definition getVideoFormatFromMimeType ::
  "(jsstring \<Rightarrow> jsstring) \<Rightarrow> jsstring \<Rightarrow> VideoFormat member" where
  "getVideoFormatFromMimeType toLowerCase mimeType =
     literal_get video_formatMap (toLowerCase mimeType)"

text \<open>
  \<open>ImageBlock format bytes\<close>, \<open>DocumentBlock format name bytes\<close>, \<open>VideoBlock format bytes\<close>.
\<close>

datatype StrandsContentBlock =
    TextBlock jsstring
  | ImageBlock "ImageFormat member" jsstring
  | DocumentBlock "DocumentFormat member" jsstring jsstring
  | VideoBlock "VideoFormat member" jsstring

section \<open>Messages and attachments\<close>

text \<open>
  The declarations of \<^verbatim>\<open>ExtraData\<close>, \<^verbatim>\<open>UploadedFileType\<close> and \<^verbatim>\<open>UnrecordedMessage\<close> are
  imported by the module; the records hold the fields the module reads. The fields
  \<^verbatim>\<open>type\<close>, \<^verbatim>\<open>name\<close> and \<^verbatim>\<open>data\<close> carry the name of their record as a prefix.
\<close>

record Source =
  source_type :: jsstring
  mediaType :: jsstring
  source_data :: jsstring

record ExtraData =
  extraData_type :: jsstring
  extraData_name :: jsstring
  source :: Source

record UploadedFileType =
  s3Url :: "jsstring option"
  base64EncodedData :: "jsstring option"

record UnrecordedMessage =
  role :: jsstring
  content :: jsstring
  extraData :: "ExtraData list option"

record StrandsMessage =
  strands_role :: jsstring
  strands_content :: "StrandsContentBlock list"

record File =
  file_name :: jsstring
  file_type :: jsstring

text \<open>An error thrown, as a value: a call completes with its result or with the error.\<close>

datatype js_error = SyntaxError | TypeError

datatype 'a completion = Normal 'a | Throw js_error

text \<open>
  Lines 67 to 79 of the resolver: the value of \<^verbatim>\<open>base64Data\<close> before it is tested;
  \<open>None\<close> is \<^verbatim>\<open>undefined\<close>. Optional chaining \<^verbatim>\<open>a?.f\<close> on a value that cannot throw is
  \<open>Option.bind\<close> or \<open>map_option\<close>, and \<^verbatim>\<open>a ?? b\<close> evaluates \<open>b\<close> only when \<open>a\<close> is
  \<^verbatim>\<open>undefined\<close>.

  The cache is a plain object, given by the list of its own properties, and
  \<^verbatim>\<open>base64Cache?.[key]\<close> is a property read like the reads of the format tables. An own
  property is a string. An inherited one is a function (for \<^verbatim>\<open>__proto__\<close> the object
  \<^verbatim>\<open>Object.prototype\<close>): it is not nullish and has no \<^verbatim>\<open>replace\<close>, so the call
  \<^verbatim>\<open>?.replace(...)\<close> throws a \<^verbatim>\<open>TypeError\<close>, which nothing in the converter catches.
\<close>

definition base64Data_of ::
  "ExtraData \<Rightarrow> UploadedFileType list option \<Rightarrow> (jsstring \<times> jsstring) list option
     \<Rightarrow> jsstring option completion" where
  "base64Data_of data uploadedFiles base64Cache =
     (if source_type (source data) = js ''base64'' then Normal (Some (source_data (source data)))
      else if source_type (source data) = js ''s3'' then
        (case Option.bind
                (Option.bind uploadedFiles
                   (find (\<lambda>uploadedFile. s3Url uploadedFile = Some (source_data (source data)))))
                (\<lambda>uploadedFile. map_option replace_data_prefix (base64EncodedData uploadedFile))
         of
           Some found \<Rightarrow> Normal (Some found)
         | None \<Rightarrow>
             (case base64Cache of
                None \<Rightarrow> Normal None
              | Some cache \<Rightarrow>
                  (case literal_get cache (source_data (source data)) of
                     Own cached \<Rightarrow> Normal (Some (replace_data_prefix cached))
                   | Proto inherited \<Rightarrow> Throw TypeError
                   | Missing \<Rightarrow> Normal None)))
      else Normal None)"

definition convertExtraDataToStrandsContentBlock ::
  "(jsstring \<Rightarrow> jsstring) \<Rightarrow> ExtraData \<Rightarrow> UploadedFileType list option
     \<Rightarrow> (jsstring \<times> jsstring) list option \<Rightarrow> StrandsContentBlock option completion" where
  "convertExtraDataToStrandsContentBlock toLowerCase data uploadedFiles base64Cache =
     (case base64Data_of data uploadedFiles base64Cache of
        Throw error \<Rightarrow> Throw error
      | Normal None \<Rightarrow> Normal None
      | Normal (Some base64Data) \<Rightarrow>
          if base64Data = [] then Normal None
          else if extraData_type data = js ''image'' then
            Normal (Some (ImageBlock
                    (getImageFormatFromMimeType toLowerCase (mediaType (source data)))
                    base64Data))
          else if extraData_type data = js ''file'' then
            Normal (Some (DocumentBlock
                    (getDocumentFormatFromMimeType toLowerCase (mediaType (source data)))
                    (extraData_name data) base64Data))
          else if extraData_type data = js ''video'' then
            Normal (Some (VideoBlock
                    (getVideoFormatFromMimeType toLowerCase (mediaType (source data)))
                    base64Data))
          else Normal None)"

text \<open>
  The loop over \<^verbatim>\<open>message.extraData\<close>, pushing each block that was produced; an error
  thrown by the resolver ends it.
\<close>

fun push_extraData ::
  "(jsstring \<Rightarrow> jsstring) \<Rightarrow> UploadedFileType list option
     \<Rightarrow> (jsstring \<times> jsstring) list option
     \<Rightarrow> ExtraData list \<Rightarrow> StrandsContentBlock list \<Rightarrow> StrandsContentBlock list completion" where
  "push_extraData toLowerCase uploadedFiles base64Cache [] contentBlocks = Normal contentBlocks"
| "push_extraData toLowerCase uploadedFiles base64Cache (data # rest) contentBlocks =
     (case convertExtraDataToStrandsContentBlock toLowerCase data uploadedFiles base64Cache of
        Throw error \<Rightarrow> Throw error
      | Normal (Some contentBlock) \<Rightarrow>
          push_extraData toLowerCase uploadedFiles base64Cache rest
            (contentBlocks @ [contentBlock])
      | Normal None \<Rightarrow> push_extraData toLowerCase uploadedFiles base64Cache rest contentBlocks)"

text \<open>The body of the \<^verbatim>\<open>map\<close> callback, one message.\<close>

definition convertMessage ::
  "(jsstring \<Rightarrow> jsstring) \<Rightarrow> UploadedFileType list option
     \<Rightarrow> (jsstring \<times> jsstring) list option
     \<Rightarrow> UnrecordedMessage \<Rightarrow> StrandsMessage completion" where
  "convertMessage toLowerCase uploadedFiles base64Cache message =
     (let blocks1 = (if content message \<noteq> [] \<and> trim (content message) \<noteq> []
                     then [TextBlock (content message)] else [])
      in case (case extraData message of
                 Some extras \<Rightarrow>
                   push_extraData toLowerCase uploadedFiles base64Cache extras blocks1
               | None \<Rightarrow> Normal blocks1)
         of
           Throw error \<Rightarrow> Throw error
         | Normal blocks2 \<Rightarrow>
             Normal \<lparr>strands_role = role message,
                     strands_content =
                       (if length blocks2 = 0
                        then blocks2 @ [TextBlock (if content message \<noteq> [] then content message
                                                    else [])]
                        else blocks2)\<rparr>)"

text \<open>
  \<^verbatim>\<open>Array.prototype.map\<close> with a callback that may throw: the elements are converted in
  order and the first error leaves the call.
\<close>

fun Array_map :: "('a \<Rightarrow> 'b completion) \<Rightarrow> 'a list \<Rightarrow> 'b list completion" where
  "Array_map f [] = Normal []"
| "Array_map f (x # xs) =
     (case f x of
        Throw error \<Rightarrow> Throw error
      | Normal y \<Rightarrow>
          (case Array_map f xs of
             Throw error \<Rightarrow> Throw error
           | Normal ys \<Rightarrow> Normal (y # ys)))"

definition convertToStrandsFormat ::
  "(jsstring \<Rightarrow> jsstring) \<Rightarrow> UnrecordedMessage list \<Rightarrow> UploadedFileType list option
     \<Rightarrow> (jsstring \<times> jsstring) list option \<Rightarrow> StrandsMessage list completion" where
  "convertToStrandsFormat toLowerCase messages uploadedFiles base64Cache =
     Array_map (convertMessage toLowerCase uploadedFiles base64Cache) messages"

text \<open>
  The raw-file path, one file: the promise always resolves to a block. The loop around it,
  which reads each file through a \<^verbatim>\<open>FileReader\<close> and skips a file whose reading fails,
  is not part of the model.
\<close>

definition convertFileToStrandsContentBlock ::
  "(jsstring \<Rightarrow> jsstring) \<Rightarrow> File \<Rightarrow> jsstring \<Rightarrow> StrandsContentBlock option" where
  "convertFileToStrandsContentBlock toLowerCase file base64Data =
     (let mimeType = file_type file;
          fileName = replace_fileName (file_name file)
      in if startsWith mimeType (js ''image/'') then
           Some (ImageBlock (getImageFormatFromMimeType toLowerCase mimeType) base64Data)
         else if startsWith mimeType (js ''video/'') then
           Some (VideoBlock (getVideoFormatFromMimeType toLowerCase mimeType) base64Data)
         else
           Some (DocumentBlock (getDocumentFormatFromMimeType toLowerCase mimeType)
                   fileName base64Data))"

section \<open>Values of the stream frames\<close>

text \<open>
  \<^verbatim>\<open>JSON.parse\<close> gives any JSON value, and the module reads it with no check of its shape,
  so the values are modelled untyped. A Number is held as its canonical rendering (what
  \<^verbatim>\<open>Number.prototype.toString\<close> gives; \<^verbatim>\<open>0\<close> for both zeros). An Object is its list of own
  properties; a read takes the first binding of a name.
\<close>

datatype jsval =
    Undefined
  | Null
  | Boolean bool
  | Number jsstring
  | String jsstring
  | Array "jsval list"
  | Object "(jsstring \<times> jsval) list"

fun truthy :: "jsval \<Rightarrow> bool" where
  "truthy Undefined = False"
| "truthy Null = False"
| "truthy (Boolean b) = b"
| "truthy (Number r) = (r \<noteq> js ''0'' \<and> r \<noteq> js ''NaN'')"
| "truthy (String s) = (s \<noteq> [])"
| "truthy (Array xs) = True"
| "truthy (Object kvs) = True"

text \<open>\<^verbatim>\<open>a || b\<close>\<close>

definition js_or :: "jsval \<Rightarrow> jsval \<Rightarrow> jsval" where
  "js_or a b = (if truthy a then a else b)"

text \<open>
  \<^verbatim>\<open>v.key\<close>, for the property names the module reads: none of them is a property of
  \<^verbatim>\<open>Object.prototype\<close>, of \<^verbatim>\<open>Array.prototype\<close> or of the wrapper of a primitive, so only an
  own property of an object gives a value. Reading from \<^verbatim>\<open>undefined\<close> or \<^verbatim>\<open>null\<close> throws.
\<close>

fun getProp :: "jsval \<Rightarrow> jsstring \<Rightarrow> jsval completion" where
  "getProp Undefined key = Throw TypeError"
| "getProp Null key = Throw TypeError"
| "getProp (Object kvs) key = Normal (case map_of kvs key of Some v \<Rightarrow> v | None \<Rightarrow> Undefined)"
| "getProp v key = Normal Undefined"

text \<open>\<^verbatim>\<open>key in v\<close>, for the same names: it throws unless \<open>v\<close> is an object or an array.\<close>

fun js_in :: "jsstring \<Rightarrow> jsval \<Rightarrow> bool completion" where
  "js_in key (Object kvs) = Normal (key \<in> fst ` set kvs)"
| "js_in key (Array xs) = Normal False"
| "js_in key v = Throw TypeError"

text \<open>\<^verbatim>\<open>Array.prototype.join\<close> on the converted elements; the first error is thrown.\<close>

fun join_elements :: "jsstring completion list \<Rightarrow> jsstring completion" where
  "join_elements [] = Normal []"
| "join_elements [Normal s] = Normal s"
| "join_elements (Normal s # rest) =
     (case join_elements rest of
        Normal t \<Rightarrow> Normal (s @ js '','' @ t)
      | Throw e \<Rightarrow> Throw e)"
| "join_elements (Throw e # rest) = Throw e"

text \<open>
  The conversion to a string of a template literal and of \<^verbatim>\<open>+\<close> with a string operand.
  A parsed object has no callable property: with an own \<^verbatim>\<open>toString\<close> the conversion finds
  no primitive and throws; without one it is \<^verbatim>\<open>Object.prototype.toString\<close>.
\<close>

fun ToString :: "jsval \<Rightarrow> jsstring completion" where
  "ToString Undefined = Normal (js ''undefined'')"
| "ToString Null = Normal (js ''null'')"
| "ToString (Boolean b) = Normal (if b then js ''true'' else js ''false'')"
| "ToString (Number r) = Normal r"
| "ToString (String s) = Normal s"
| "ToString (Array xs) =
     join_elements (map (\<lambda>x. if x = Undefined \<or> x = Null then Normal [] else ToString x) xs)"
| "ToString (Object kvs) =
     (if js ''toString'' \<in> fst ` set kvs then Throw TypeError
      else Normal (js ''[object Object]''))"

section \<open>The stream processor\<close>

datatype ContentBlockType = Text | ToolUse | Reasoning

text \<open>The two private fields; \<open>None\<close> is \<^verbatim>\<open>null\<close>.\<close>

record StrandsStreamProcessor =
  currentContentBlockType :: "ContentBlockType option"
  toolUseBuffer :: jsstring

record Usage =
  inputTokens :: jsval
  outputTokens :: jsval
  totalTokens :: jsval
  cacheReadInputTokens :: jsval
  cacheWriteInputTokens :: jsval

record Metadata =
  usage :: Usage

text \<open>
  The returned object \<^verbatim>\<open>{text, trace?, metadata?}\<close>; \<open>None\<close> is a property that is not there.
\<close>

record StreamOutput =
  out_text :: jsval
  out_trace :: "jsval option"
  out_metadata :: "Metadata option"

type_synonym step = "StreamOutput option completion \<times> StrandsStreamProcessor"

definition reset :: "StrandsStreamProcessor \<Rightarrow> StrandsStreamProcessor" where
  "reset this = this\<lparr>currentContentBlockType := None, toolUseBuffer := []\<rparr>"

text \<open>
  An expression that may throw, evaluated in state \<open>this\<close>: the error leaves with the state
  as it is at that point.
\<close>

definition bindS ::
  "'a completion \<Rightarrow> StrandsStreamProcessor \<Rightarrow> ('a \<Rightarrow> step) \<Rightarrow> step" where
  "bindS m this f = (case m of Normal v \<Rightarrow> f v | Throw e \<Rightarrow> (Throw e, this))"

definition text_only :: "jsval \<Rightarrow> StreamOutput" where
  "text_only t = \<lparr>out_text = t, out_trace = None, out_metadata = None\<rparr>"

definition with_trace :: "jsval \<Rightarrow> StreamOutput" where
  "with_trace t = \<lparr>out_text = String [], out_trace = Some t, out_metadata = None\<rparr>"

text \<open>Lines 410 to 420: the redact content event, and the final \<^verbatim>\<open>return null\<close>.\<close>

definition handle_redactContent :: "StrandsStreamProcessor \<Rightarrow> jsval \<Rightarrow> step" where
  "handle_redactContent this streamEvent =
     bindS (getProp streamEvent (js ''redactContent'')) this (\<lambda>redactContent.
       if truthy redactContent then
         bindS (getProp redactContent (js ''redactAssistantContentMessage'')) this (\<lambda>message.
           if truthy message then (Normal (Some (text_only message)), this)
           else (Normal None, this))
       else (Normal None, this))"

text \<open>
  Lines 396 to 408: the error events. The five reads are of the same object, so the
  short circuit of \<^verbatim>\<open>||\<close> cannot be observed.
\<close>

definition handle_error :: "StrandsStreamProcessor \<Rightarrow> jsval \<Rightarrow> step" where
  "handle_error this streamEvent =
     bindS (getProp streamEvent (js ''internalServerException'')) this (\<lambda>e1.
     bindS (getProp streamEvent (js ''modelStreamErrorException'')) this (\<lambda>e2.
     bindS (getProp streamEvent (js ''serviceUnavailableException'')) this (\<lambda>e3.
     bindS (getProp streamEvent (js ''throttlingException'')) this (\<lambda>e4.
     bindS (getProp streamEvent (js ''validationException'')) this (\<lambda>e5.
       let errorEvent = js_or (js_or (js_or (js_or e1 e2) e3) e4) e5
       in if truthy errorEvent then
            bindS (getProp errorEvent (js ''message'')) this (\<lambda>message.
            bindS (ToString (js_or message (String (js ''An error occurred'')))) this (\<lambda>shown.
              (Normal (Some (text_only (String (js ''Error: '' @ shown)))), this)))
          else handle_redactContent this streamEvent)))))"

text \<open>Lines 378 to 394: the metadata event.\<close>

definition handle_metadata :: "StrandsStreamProcessor \<Rightarrow> jsval \<Rightarrow> step" where
  "handle_metadata this streamEvent =
     bindS (getProp streamEvent (js ''metadata'')) this (\<lambda>metadata.
       if truthy metadata then
         bindS (getProp metadata (js ''usage'')) this (\<lambda>usage.
         bindS (getProp usage (js ''inputTokens'')) this (\<lambda>v1.
         bindS (getProp usage (js ''outputTokens'')) this (\<lambda>v2.
         bindS (getProp usage (js ''totalTokens'')) this (\<lambda>v3.
         bindS (getProp usage (js ''cacheReadInputTokens'')) this (\<lambda>v4.
         bindS (getProp usage (js ''cacheWriteInputTokens'')) this (\<lambda>v5.
           (Normal (Some \<lparr>out_text = String [], out_trace = None,
                           out_metadata = Some \<lparr>usage =
                             \<lparr>inputTokens = v1, outputTokens = v2, totalTokens = v3,
                              cacheReadInputTokens = v4, cacheWriteInputTokens = v5\<rparr>\<rparr>\<rparr>),
            this)))))))
       else handle_error this streamEvent)"

text \<open>Lines 372 to 376: the message stop event.\<close>

definition handle_messageStop :: "StrandsStreamProcessor \<Rightarrow> jsval \<Rightarrow> step" where
  "handle_messageStop this streamEvent =
     bindS (getProp streamEvent (js ''messageStop'')) this (\<lambda>messageStop.
       if truthy messageStop then (Normal None, reset this)
       else handle_metadata this streamEvent)"

text \<open>Lines 355 to 370: the content block stop event.\<close>

definition handle_contentBlockStop :: "StrandsStreamProcessor \<Rightarrow> jsval \<Rightarrow> step" where
  "handle_contentBlockStop this streamEvent =
     bindS (getProp streamEvent (js ''contentBlockStop'')) this (\<lambda>contentBlockStop.
       if truthy contentBlockStop then
         if currentContentBlockType this = Some Text then
           (Normal (Some (text_only (String [0x0A]))), this\<lparr>currentContentBlockType := None\<rparr>)
         else if currentContentBlockType this = Some ToolUse then
           (Normal (Some (with_trace (String ([0x0A] @ js [CHR 0x60, CHR 0x60, CHR 0x60] @ [0x0A])))),
            this\<lparr>currentContentBlockType := None\<rparr>)
         else (Normal None, this\<lparr>currentContentBlockType := None\<rparr>)
       else handle_messageStop this streamEvent)"

text \<open>
  Lines 338 to 353: the content block delta event. When no branch of the inner chain
  returns, control falls through to the checks that follow.
\<close>

definition handle_contentBlockDelta :: "StrandsStreamProcessor \<Rightarrow> jsval \<Rightarrow> step" where
  "handle_contentBlockDelta this streamEvent =
     bindS (getProp streamEvent (js ''contentBlockDelta'')) this (\<lambda>contentBlockDelta.
       if truthy contentBlockDelta then
         bindS (getProp contentBlockDelta (js ''delta'')) this (\<lambda>delta.
         bindS (getProp delta (js ''text'')) this (\<lambda>delta_text.
           if truthy delta_text then
             (Normal (Some (text_only delta_text)), this\<lparr>currentContentBlockType := Some Text\<rparr>)
           else
             bindS (getProp delta (js ''toolUse'')) this (\<lambda>delta_toolUse.
               if truthy delta_toolUse then
                 (let this1 = this\<lparr>currentContentBlockType := Some ToolUse\<rparr>
                  in bindS (getProp delta_toolUse (js ''input'')) this1 (\<lambda>input.
                     bindS (ToString input) this1 (\<lambda>shown.
                       (Normal (Some (with_trace input)),
                        this1\<lparr>toolUseBuffer := toolUseBuffer this1 @ shown\<rparr>))))
               else
                 bindS (getProp delta (js ''reasoningContent'')) this (\<lambda>reasoningContent.
                 bindS (if reasoningContent = Undefined \<or> reasoningContent = Null
                        then Normal Undefined
                        else getProp reasoningContent (js ''text'')) this (\<lambda>reasoning_text.
                   if truthy reasoning_text then
                     (Normal (Some (with_trace reasoning_text)),
                      this\<lparr>currentContentBlockType := Some Reasoning\<rparr>)
                   else handle_contentBlockStop this streamEvent)))))
       else handle_contentBlockStop this streamEvent)"

text \<open>
  Lines 324 to 336: the content block start event. \<^verbatim>\<open>'text' in start && start.text\<close> reads
  \<^verbatim>\<open>start.text\<close> only when the name is there; the read cannot throw once \<^verbatim>\<open>in\<close> has not.
\<close>

definition handle_contentBlockStart :: "StrandsStreamProcessor \<Rightarrow> jsval \<Rightarrow> step" where
  "handle_contentBlockStart this streamEvent =
     bindS (getProp streamEvent (js ''contentBlockStart'')) this (\<lambda>contentBlockStart.
       if truthy contentBlockStart then
         bindS (getProp contentBlockStart (js ''start'')) this (\<lambda>start.
         bindS (js_in (js ''text'') start) this (\<lambda>has_text.
         bindS (getProp start (js ''text'')) this (\<lambda>start_text.
           if has_text \<and> truthy start_text then
             (Normal (Some (text_only start_text)), this\<lparr>currentContentBlockType := Some Text\<rparr>)
           else
             bindS (js_in (js ''toolUse'') start) this (\<lambda>has_toolUse.
             bindS (getProp start (js ''toolUse'')) this (\<lambda>start_toolUse.
               if has_toolUse \<and> truthy start_toolUse then
                 (let this1 = this\<lparr>currentContentBlockType := Some ToolUse, toolUseBuffer := []\<rparr>
                  in bindS (getProp start_toolUse (js ''name'')) this1 (\<lambda>name.
                     bindS (ToString name) this1 (\<lambda>shown.
                       (Normal (Some (with_trace
                          (String (js [CHR 0x60, CHR 0x60, CHR 0x60] @ shown @ [0x0A])))),
                        this1))))
               else handle_contentBlockDelta this streamEvent)))))
       else handle_contentBlockDelta this streamEvent)"

text \<open>
  Lines 313 to 322, and through the handlers to line 420: the body of \<^verbatim>\<open>try\<close>.
  \<^verbatim>\<open>JSON.parse\<close> is a parameter: it gives the parsed value or throws.
\<close>

definition try_block ::
  "(jsstring \<Rightarrow> jsval completion) \<Rightarrow> StrandsStreamProcessor \<Rightarrow> jsstring \<Rightarrow> step" where
  "try_block JSON_parse this eventText =
     bindS (JSON_parse eventText) this (\<lambda>parsedEvent.
     bindS (getProp parsedEvent (js ''event'')) this (\<lambda>streamEvent.
       if \<not> truthy streamEvent then (Normal None, this)
       else
         bindS (getProp streamEvent (js ''messageStart'')) this (\<lambda>messageStart.
           if truthy messageStart then (Normal None, reset this)
           else handle_contentBlockStart this streamEvent)))"

text \<open>
  \<^verbatim>\<open>processEvent\<close>: the \<^verbatim>\<open>catch\<close> clause logs and returns \<^verbatim>\<open>null\<close>; what the body had
  assigned before it threw stays assigned.
\<close>

definition processEvent ::
  "(jsstring \<Rightarrow> jsval completion) \<Rightarrow> StrandsStreamProcessor \<Rightarrow> jsstring \<Rightarrow> step" where
  "processEvent JSON_parse this eventText =
     (case try_block JSON_parse this eventText of
        (Normal result, this') \<Rightarrow> (Normal result, this')
      | (Throw error, this') \<Rightarrow> (Normal None, this'))"

text \<open>
  A frame of the wire format: an object whose \<^verbatim>\<open>event\<close> field holds one variant.
\<close>

definition frame :: "jsstring \<Rightarrow> jsval \<Rightarrow> jsval" where
  "frame variant payload = Object [(js ''event'', Object [(variant, payload)])]"

section \<open>Frames, runs and the words of the specification\<close>

text \<open>
  A \<^verbatim>\<open>JSON.parse\<close> that knows the frame texts of a table and throws on every other text.
\<close>

definition table_parse :: "(jsstring \<times> jsval) list \<Rightarrow> jsstring \<Rightarrow> jsval completion" where
  "table_parse table eventText =
     (case map_of table eventText of Some v \<Rightarrow> Normal v | None \<Rightarrow> Throw SyntaxError)"

text \<open>
  The frames of the protocol table. \<open>further\<close> stands for the other fields of the payload
  (the block index) and \<open>further_toolUse\<close> for those of the tool description (its identifier).
\<close>

definition contentBlockStart_text_frame :: "jsstring \<Rightarrow> (jsstring \<times> jsval) list \<Rightarrow> jsval" where
  "contentBlockStart_text_frame t further =
     frame (js ''contentBlockStart'')
       (Object ((js ''start'', Object [(js ''text'', String t)]) # further))"

definition contentBlockStart_toolUse_frame ::
  "jsstring \<Rightarrow> (jsstring \<times> jsval) list \<Rightarrow> (jsstring \<times> jsval) list \<Rightarrow> jsval" where
  "contentBlockStart_toolUse_frame name further_toolUse further =
     frame (js ''contentBlockStart'')
       (Object ((js ''start'',
                 Object [(js ''toolUse'', Object ((js ''name'', String name) # further_toolUse))])
                # further))"

definition contentBlockDelta_toolUse_frame :: "jsstring \<Rightarrow> (jsstring \<times> jsval) list \<Rightarrow> jsval" where
  "contentBlockDelta_toolUse_frame input further =
     frame (js ''contentBlockDelta'')
       (Object ((js ''delta'', Object [(js ''toolUse'', Object [(js ''input'', String input)])])
                # further))"

definition contentBlockStop_frame :: "(jsstring \<times> jsval) list \<Rightarrow> jsval" where
  "contentBlockStop_frame further = frame (js ''contentBlockStop'') (Object further)"

definition messageStart_frame :: "(jsstring \<times> jsval) list \<Rightarrow> jsval" where
  "messageStart_frame further = frame (js ''messageStart'') (Object further)"

definition messageStop_frame :: "(jsstring \<times> jsval) list \<Rightarrow> jsval" where
  "messageStop_frame further = frame (js ''messageStop'') (Object further)"

text \<open>The five error variants, and an error frame with the fields of its exception.\<close>

definition error_variants :: "jsstring list" where
  "error_variants =
     [js ''internalServerException'', js ''modelStreamErrorException'',
      js ''serviceUnavailableException'', js ''throttlingException'',
      js ''validationException'']"

definition error_frame :: "jsstring \<Rightarrow> (jsstring \<times> jsval) list \<Rightarrow> jsval" where
  "error_frame variant exception = frame variant (Object exception)"

text \<open>Successive calls of \<^verbatim>\<open>processEvent\<close> on one processor, with what each returned.\<close>

fun processEvents ::
  "(jsstring \<Rightarrow> jsval completion) \<Rightarrow> StrandsStreamProcessor \<Rightarrow> jsstring list
     \<Rightarrow> StreamOutput option completion list \<times> StrandsStreamProcessor" where
  "processEvents JSON_parse this [] = ([], this)"
| "processEvents JSON_parse this (eventText # rest) =
     (case processEvent JSON_parse this eventText of
        (result, this1) \<Rightarrow>
          (case processEvents JSON_parse this1 rest of
             (results, this2) \<Rightarrow> (result # results, this2)))"

text \<open>
  The code units that the class of the display name lists: letters, digits, what
  \<^verbatim>\<open>\s\<close> matches (white space and line terminators), hyphen, parentheses, square brackets.
\<close>

definition kept_in_fileName :: "jschar \<Rightarrow> bool" where
  "kept_in_fileName c =
     ((0x61 \<le> c \<and> c \<le> 0x7A) \<or> (0x41 \<le> c \<and> c \<le> 0x5A) \<or> (0x30 \<le> c \<and> c \<le> 0x39) \<or>
      isWhiteSpace c \<or> isLineTerminator c \<or>
      c = 0x2D \<or> c = 0x28 \<or> c = 0x29 \<or> c = 0x5B \<or> c = 0x5D)"

text \<open>
  The display name in the words of the specification: every character outside letters,
  digits, the space character, hyphen, parentheses and square brackets becomes the
  placeholder.
\<close>

definition spec_fileName :: "jsstring \<Rightarrow> jsstring" where
  "spec_fileName s =
     map (\<lambda>c. if (0x61 \<le> c \<and> c \<le> 0x7A) \<or> (0x41 \<le> c \<and> c \<le> 0x5A) \<or> (0x30 \<le> c \<and> c \<le> 0x39) \<or>
                  c = 0x20 \<or> c = 0x2D \<or> c = 0x28 \<or> c = 0x29 \<or> c = 0x5B \<or> c = 0x5D
               then c else of_char CHR ''X'') s"



section \<open>The message converter\<close>

lemma resolver_throws_TypeError:
  "convertExtraDataToStrandsContentBlock lc d ufs cache = Throw e \<Longrightarrow> e = TypeError"
  by (auto simp: convertExtraDataToStrandsContentBlock_def base64Data_of_def
        split: if_splits option.splits member.splits completion.splits)

lemma push_extraData_Normal:
  "\<forall>d\<in>set extras. \<exists>r. convertExtraDataToStrandsContentBlock lc d ufs cache = Normal r \<Longrightarrow>
   push_extraData lc ufs cache extras acc
     = Normal (acc @ List.map_filter
                       (\<lambda>d. case convertExtraDataToStrandsContentBlock lc d ufs cache of
                               Normal r \<Rightarrow> r | Throw e \<Rightarrow> None) extras)"
proof (induction extras arbitrary: acc)
  case Nil
  show ?case by simp
next
  case (Cons d extras)
  from Cons.prems obtain r where r: "convertExtraDataToStrandsContentBlock lc d ufs cache = Normal r"
    by auto
  from Cons.prems have rest: "\<forall>d\<in>set extras. \<exists>r. convertExtraDataToStrandsContentBlock lc d ufs cache = Normal r"
    by simp
  show ?case
    by (cases r) (simp_all add: r Cons.IH [OF rest])
qed

lemma push_extraData_Throw:
  "\<exists>d\<in>set extras. \<exists>e. convertExtraDataToStrandsContentBlock lc d ufs cache = Throw e \<Longrightarrow>
   push_extraData lc ufs cache extras acc = Throw TypeError"
proof (induction extras arbitrary: acc)
  case Nil
  then show ?case by simp
next
  case (Cons d extras)
  show ?case
  proof (cases "convertExtraDataToStrandsContentBlock lc d ufs cache")
    case (Throw e)
    then have "e = TypeError" by (rule resolver_throws_TypeError)
    with Throw show ?thesis by simp
  next
    case (Normal r)
    with Cons.prems have "\<exists>d\<in>set extras. \<exists>e. convertExtraDataToStrandsContentBlock lc d ufs cache = Throw e"
      by auto
    then have "\<And>acc. push_extraData lc ufs cache extras acc = Throw TypeError"
      by (rule Cons.IH)
    with Normal show ?thesis by (cases r) simp_all
  qed
qed

lemma trim_Nil: "trim [] = []"
  by (simp add: trim_def)

lemma convertMessage_Normal:
  assumes "\<forall>d\<in>set (case extraData m of None \<Rightarrow> [] | Some ds \<Rightarrow> ds).
             \<exists>r. convertExtraDataToStrandsContentBlock lc d ufs cache = Normal r"
  shows "convertMessage lc ufs cache m =
           Normal \<lparr>strands_role = role m,
                   strands_content =
                     (let blocks = (if trim (content m) \<noteq> [] then [TextBlock (content m)] else [])
                                   @ List.map_filter
                                       (\<lambda>d. case convertExtraDataToStrandsContentBlock lc d ufs cache of
                                               Normal r \<Rightarrow> r | Throw e \<Rightarrow> None)
                                       (case extraData m of None \<Rightarrow> [] | Some ds \<Rightarrow> ds)
                      in if blocks = [] then [TextBlock (content m)] else blocks)\<rparr>"
proof (cases "extraData m")
  case None
  then show ?thesis
    by (auto simp: convertMessage_def Let_def trim_Nil)
next
  case (Some ds)
  with assms have "\<forall>d\<in>set ds. \<exists>r. convertExtraDataToStrandsContentBlock lc d ufs cache = Normal r"
    by simp
  then have "\<And>acc. push_extraData lc ufs cache ds acc
     = Normal (acc @ List.map_filter
                       (\<lambda>d. case convertExtraDataToStrandsContentBlock lc d ufs cache of
                               Normal r \<Rightarrow> r | Throw e \<Rightarrow> None) ds)"
    by (rule push_extraData_Normal)
  with Some show ?thesis
    by (auto simp: convertMessage_def Let_def trim_Nil)
qed

lemma convertMessage_Throw:
  assumes "\<exists>d\<in>set (case extraData m of None \<Rightarrow> [] | Some ds \<Rightarrow> ds).
             \<exists>e. convertExtraDataToStrandsContentBlock lc d ufs cache = Throw e"
  shows "convertMessage lc ufs cache m = Throw TypeError"
proof (cases "extraData m")
  case None
  with assms show ?thesis by simp
next
  case (Some ds)
  with assms have "\<exists>d\<in>set ds. \<exists>e. convertExtraDataToStrandsContentBlock lc d ufs cache = Throw e"
    by simp
  then have "\<And>acc. push_extraData lc ufs cache ds acc = Throw TypeError"
    by (rule push_extraData_Throw)
  with Some show ?thesis
    by (simp add: convertMessage_def Let_def)
qed

lemma Array_map_Normal:
  "Array_map f xs = Normal ys \<Longrightarrow>
   length ys = length xs \<and> (\<forall>i<length xs. f (xs ! i) = Normal (ys ! i))"
proof (induction xs arbitrary: ys)
  case Nil
  then show ?case by simp
next
  case (Cons x xs)
  then obtain y ys' where y: "f x = Normal y" and ys': "Array_map f xs = Normal ys'"
    and ys: "ys = y # ys'"
    by (auto split: completion.splits)
  from Cons.IH [OF ys'] y ys show ?case
    by (auto simp: nth_Cons split: nat.splits)
qed

lemma Array_map_returns:
  "\<forall>x\<in>set xs. \<exists>y. f x = Normal y \<Longrightarrow> \<exists>ys. Array_map f xs = Normal ys"
  by (induction xs) auto

lemma Array_map_Throw:
  "\<exists>x\<in>set xs. f x = Throw TypeError \<Longrightarrow> \<forall>x\<in>set xs. \<forall>e. f x = Throw e \<longrightarrow> e = TypeError \<Longrightarrow>
   Array_map f xs = Throw TypeError"
proof (induction xs)
  case Nil
  then show ?case by simp
next
  case (Cons x xs)
  show ?case
  proof (cases "f x")
    case (Throw e)
    with Cons.prems have "e = TypeError" by simp
    with Throw show ?thesis by simp
  next
    case (Normal y)
    with Cons.prems have "\<exists>x\<in>set xs. f x = Throw TypeError"
      and "\<forall>x\<in>set xs. \<forall>e. f x = Throw e \<longrightarrow> e = TypeError"
      by auto
    then have "Array_map f xs = Throw TypeError" by (rule Cons.IH)
    with Normal show ?thesis by simp
  qed
qed

text \<open>
  C1. Every message that the converter produces has a content list that is not empty.
  When the converter returns, it returns one message for each input message, with the same
  role; the content list is the text block (when the content is not blank) followed by the
  blocks of the attachments that resolve, in their order, and when that list is empty it is
  the single text block of the content, which is then blank or the empty string. The
  converter returns whenever the resolver returns for every attachment; when the resolver
  throws for one of them, the converter throws the \<^verbatim>\<open>TypeError\<close> and produces no message.
\<close>

theorem convertToStrandsFormat_content_nonempty:
  "(\<forall>outs. convertToStrandsFormat lc messages ufs cache = Normal outs \<longrightarrow>
      length outs = length messages \<and>
      (\<forall>out \<in> set outs. strands_content out \<noteq> []) \<and>
      (\<forall>i < length messages.
         strands_role (outs ! i) = role (messages ! i) \<and>
         strands_content (outs ! i) =
           (let blocks = (if trim (content (messages ! i)) \<noteq> []
                          then [TextBlock (content (messages ! i))] else [])
                         @ List.map_filter
                             (\<lambda>d. case convertExtraDataToStrandsContentBlock lc d ufs cache of
                                     Normal r \<Rightarrow> r | Throw e \<Rightarrow> None)
                             (case extraData (messages ! i) of None \<Rightarrow> [] | Some ds \<Rightarrow> ds)
            in if blocks = [] then [TextBlock (content (messages ! i))] else blocks))) \<and>
   ((\<forall>m \<in> set messages. \<forall>d \<in> set (case extraData m of None \<Rightarrow> [] | Some ds \<Rightarrow> ds).
        \<exists>r. convertExtraDataToStrandsContentBlock lc d ufs cache = Normal r)
      \<longrightarrow> (\<exists>outs. convertToStrandsFormat lc messages ufs cache = Normal outs)) \<and>
   ((\<exists>m \<in> set messages. \<exists>d \<in> set (case extraData m of None \<Rightarrow> [] | Some ds \<Rightarrow> ds).
        \<exists>e. convertExtraDataToStrandsContentBlock lc d ufs cache = Throw e)
      \<longrightarrow> convertToStrandsFormat lc messages ufs cache = Throw TypeError)"
proof (intro conjI allI impI ballI)
  fix outs assume outs: "convertToStrandsFormat lc messages ufs cache = Normal outs"
  then have am: "Array_map (convertMessage lc ufs cache) messages = Normal outs"
    by (simp add: convertToStrandsFormat_def)
  note each = Array_map_Normal [OF am]
  have resolves: "\<forall>d\<in>set (case extraData (messages ! i) of None \<Rightarrow> [] | Some ds \<Rightarrow> ds).
             \<exists>r. convertExtraDataToStrandsContentBlock lc d ufs cache = Normal r"
    if i: "i < length messages" for i
  proof (rule ccontr)
    assume "\<not> ?thesis"
    then have "\<exists>d\<in>set (case extraData (messages ! i) of None \<Rightarrow> [] | Some ds \<Rightarrow> ds).
             \<exists>e. convertExtraDataToStrandsContentBlock lc d ufs cache = Throw e"
      by (metis completion.exhaust)
    then have "convertMessage lc ufs cache (messages ! i) = Throw TypeError"
      by (rule convertMessage_Throw)
    with each i show False by simp
  qed
  have out: "outs ! i =
           \<lparr>strands_role = role (messages ! i),
            strands_content =
              (let blocks = (if trim (content (messages ! i)) \<noteq> []
                             then [TextBlock (content (messages ! i))] else [])
                            @ List.map_filter
                                (\<lambda>d. case convertExtraDataToStrandsContentBlock lc d ufs cache of
                                        Normal r \<Rightarrow> r | Throw e \<Rightarrow> None)
                                (case extraData (messages ! i) of None \<Rightarrow> [] | Some ds \<Rightarrow> ds)
               in if blocks = [] then [TextBlock (content (messages ! i))] else blocks)\<rparr>"
    if i: "i < length messages" for i
    using each i convertMessage_Normal [OF resolves [OF i]] by simp
  show "length outs = length messages"
    using each by simp
  show "strands_role (outs ! i) = role (messages ! i)" if "i < length messages" for i
    using out [OF that] by simp
  show "strands_content (outs ! i) =
           (let blocks = (if trim (content (messages ! i)) \<noteq> []
                          then [TextBlock (content (messages ! i))] else [])
                         @ List.map_filter
                             (\<lambda>d. case convertExtraDataToStrandsContentBlock lc d ufs cache of
                                     Normal r \<Rightarrow> r | Throw e \<Rightarrow> None)
                             (case extraData (messages ! i) of None \<Rightarrow> [] | Some ds \<Rightarrow> ds)
            in if blocks = [] then [TextBlock (content (messages ! i))] else blocks)"
    if "i < length messages" for i
    using out [OF that] by simp
  show "strands_content o' \<noteq> []" if "o' \<in> set outs" for o'
  proof -
    from that each obtain i where i: "i < length messages" and o': "o' = outs ! i"
      by (metis in_set_conv_nth)
    show ?thesis
      unfolding o' using out [OF i] by (simp add: Let_def)
  qed
next
  assume "\<forall>m \<in> set messages. \<forall>d \<in> set (case extraData m of None \<Rightarrow> [] | Some ds \<Rightarrow> ds).
        \<exists>r. convertExtraDataToStrandsContentBlock lc d ufs cache = Normal r"
  then have "\<forall>m\<in>set messages. \<exists>y. convertMessage lc ufs cache m = Normal y"
    using convertMessage_Normal by blast
  then show "\<exists>outs. convertToStrandsFormat lc messages ufs cache = Normal outs"
    unfolding convertToStrandsFormat_def by (rule Array_map_returns)
next
  assume "\<exists>m \<in> set messages. \<exists>d \<in> set (case extraData m of None \<Rightarrow> [] | Some ds \<Rightarrow> ds).
        \<exists>e. convertExtraDataToStrandsContentBlock lc d ufs cache = Throw e"
  then have 1: "\<exists>m\<in>set messages. convertMessage lc ufs cache m = Throw TypeError"
    using convertMessage_Throw by blast
  have 2: "\<forall>m\<in>set messages. \<forall>e. convertMessage lc ufs cache m = Throw e \<longrightarrow> e = TypeError"
  proof (intro ballI allI impI)
    fix m e assume t: "convertMessage lc ufs cache m = Throw e"
    have "\<exists>d\<in>set (case extraData m of None \<Rightarrow> [] | Some ds \<Rightarrow> ds).
             \<exists>e. convertExtraDataToStrandsContentBlock lc d ufs cache = Throw e"
    proof (rule ccontr)
      assume "\<not> ?thesis"
      then have "\<forall>d\<in>set (case extraData m of None \<Rightarrow> [] | Some ds \<Rightarrow> ds).
             \<exists>r. convertExtraDataToStrandsContentBlock lc d ufs cache = Normal r"
        by (metis completion.exhaust)
      from convertMessage_Normal [OF this] t show False by simp
    qed
    from convertMessage_Throw [OF this] t show "e = TypeError" by simp
  qed
  from 1 2 show "convertToStrandsFormat lc messages ufs cache = Throw TypeError"
    unfolding convertToStrandsFormat_def by (rule Array_map_Throw)
qed

theorem convertToStrandsFormat_content_nonempty_witness:
  "convertToStrandsFormat ascii_toLowerCase
      [\<lparr>role = js ''user'', content = js '' '', extraData = Some
        [\<lparr>extraData_type = js ''image'', extraData_name = js ''a.png'',
          source = \<lparr>source_type = js ''s3'', mediaType = js ''image/png'',
                    source_data = js ''s3://bucket/a.png''\<rparr>\<rparr>]\<rparr>] None (Some [])
     = Normal [\<lparr>strands_role = js ''user'', strands_content = [TextBlock (js '' '')]\<rparr>] \<and>
   length [\<lparr>strands_role = js ''user'', strands_content = [TextBlock (js '' '')]\<rparr>] = length
      [\<lparr>role = js ''user'', content = js '' '', extraData = Some
        [\<lparr>extraData_type = js ''image'', extraData_name = js ''a.png'',
          source = \<lparr>source_type = js ''s3'', mediaType = js ''image/png'',
                    source_data = js ''s3://bucket/a.png''\<rparr>\<rparr>]\<rparr>] \<and>
   strands_content ([\<lparr>strands_role = js ''user'', strands_content = [TextBlock (js '' '')]\<rparr>] ! 0)
     \<noteq> []"
proof -
  let ?ms = "[\<lparr>role = js ''user'', content = js '' '', extraData = Some
        [\<lparr>extraData_type = js ''image'', extraData_name = js ''a.png'',
          source = \<lparr>source_type = js ''s3'', mediaType = js ''image/png'',
                    source_data = js ''s3://bucket/a.png''\<rparr>\<rparr>]\<rparr>]"
  let ?outs = "[\<lparr>strands_role = js ''user'', strands_content = [TextBlock (js '' '')]\<rparr>]"
  have ev: "convertToStrandsFormat ascii_toLowerCase ?ms None (Some []) = Normal ?outs"
    by (simp add: convertToStrandsFormat_def convertMessage_def Let_def
          convertExtraDataToStrandsContentBlock_def base64Data_of_def literal_get_def
          Object_prototype_names_def trim_def isTrimmed_def isWhiteSpace_def
          isLineTerminator_def js_def)
  from convertToStrandsFormat_content_nonempty [of ascii_toLowerCase ?ms None "Some []",
      THEN conjunct1, rule_format, OF ev]
  have "length ?outs = length ?ms" and "\<forall>out\<in>set ?outs. strands_content out \<noteq> []"
    by blast+
  with ev show ?thesis by simp
qed

text \<open>
  The converter throws when the cache is read at a locator that names a property the cache
  inherits: here the message has the text \<^verbatim>\<open>hi\<close> and one remote attachment with the locator
  \<^verbatim>\<open>constructor\<close>, and the cache is the empty object.
\<close>

lemma converter_throws_on_inherited_locator:
  "convertToStrandsFormat ascii_toLowerCase
      [\<lparr>role = js ''user'', content = js ''hi'', extraData = Some
        [\<lparr>extraData_type = js ''image'', extraData_name = js ''a.png'',
          source = \<lparr>source_type = js ''s3'', mediaType = js ''image/png'',
                    source_data = js ''constructor''\<rparr>\<rparr>]\<rparr>] None (Some [])
     = Throw TypeError"
  by (simp add: convertToStrandsFormat_def convertMessage_def Let_def
        convertExtraDataToStrandsContentBlock_def base64Data_of_def literal_get_def
        Object_prototype_names_def trim_def isTrimmed_def isWhiteSpace_def
        isLineTerminator_def js_def)

section \<open>The attachment resolver\<close>














text \<open>
  The resolver throws exactly when it reads the cache, for want of a payload in the
  uploaded-file list, at a locator that names no own property of the cache but one that
  the cache inherits.
\<close>

lemma base64Data_of_s3:
  assumes "source_type (source d) = js ''s3''"
  shows "base64Data_of d ufs cache =
           (case Option.bind (Option.bind ufs (find (\<lambda>f. s3Url f = Some (source_data (source d)))))
                   (\<lambda>f. base64EncodedData f) of
              Some payload \<Rightarrow> Normal (Some (replace_data_prefix payload))
            | None \<Rightarrow>
                (case cache of
                   None \<Rightarrow> Normal None
                 | Some c \<Rightarrow>
                     (case map_of c (source_data (source d)) of
                        Some cached \<Rightarrow> Normal (Some (replace_data_prefix cached))
                      | None \<Rightarrow>
                          if source_data (source d) \<in> set Object_prototype_names
                          then Throw TypeError else Normal None)))"
proof -
  have ne: "js ''s3'' \<noteq> js ''base64''"
    by (simp add: js_def)
  show ?thesis
  proof (cases ufs)
    case None
    with assms ne show ?thesis
      by (simp add: base64Data_of_def literal_get_def split: option.splits)
  next
    case (Some files)
    show ?thesis
    proof (cases "find (\<lambda>f. s3Url f = Some (source_data (source d))) files")
      case None
      with Some assms ne show ?thesis
        by (simp add: base64Data_of_def literal_get_def split: option.splits)
    next
      case found: (Some f)
      show ?thesis
      proof (cases "base64EncodedData f")
        case None
        with found Some assms ne show ?thesis
          by (simp add: base64Data_of_def literal_get_def split: option.splits)
      next
        case (Some payload)
        with found \<open>ufs = Some files\<close> assms ne show ?thesis
          by (simp add: base64Data_of_def)
      qed
    qed
  qed
qed

lemma resolver_throws_iff:
  "convertExtraDataToStrandsContentBlock lc d ufs cache = Throw e \<longleftrightarrow>
     e = TypeError \<and> source_type (source d) = js ''s3'' \<and>
     Option.bind (Option.bind ufs (find (\<lambda>f. s3Url f = Some (source_data (source d)))))
       (\<lambda>f. base64EncodedData f) = None \<and>
     (\<exists>c. cache = Some c \<and> map_of c (source_data (source d)) = None \<and>
          source_data (source d) \<in> set Object_prototype_names)"
proof (cases "source_type (source d) = js ''s3''")
  case False
  then have "\<exists>r. base64Data_of d ufs cache = Normal r"
    by (simp add: base64Data_of_def)
  then obtain r where "base64Data_of d ufs cache = Normal r" ..
  then have "\<exists>b. convertExtraDataToStrandsContentBlock lc d ufs cache = Normal b"
    by (cases r) (simp_all add: convertExtraDataToStrandsContentBlock_def)
  with False show ?thesis by auto
next
  case True
  note b = base64Data_of_s3 [OF True, of ufs cache]
  show ?thesis
  proof (cases "Option.bind (Option.bind ufs (find (\<lambda>f. s3Url f = Some (source_data (source d)))))
                   (\<lambda>f. base64EncodedData f)")
    case (Some payload)
    with b have "base64Data_of d ufs cache = Normal (Some (replace_data_prefix payload))"
      by simp
    then have "\<exists>b. convertExtraDataToStrandsContentBlock lc d ufs cache = Normal b"
      by (simp add: convertExtraDataToStrandsContentBlock_def)
    with Some show ?thesis by auto
  next
    case None
    show ?thesis
    proof (cases cache)
      case no_cache: None
      with b \<open>Option.bind _ _ = None\<close> have "base64Data_of d ufs cache = Normal None"
        by simp
      then have "convertExtraDataToStrandsContentBlock lc d ufs cache = Normal None"
        by (simp add: convertExtraDataToStrandsContentBlock_def)
      with no_cache show ?thesis by simp
    next
      case (Some c)
      show ?thesis
      proof (cases "map_of c (source_data (source d))")
        case own: (Some cached)
        with b None Some have "base64Data_of d ufs cache = Normal (Some (replace_data_prefix cached))"
          by simp
        then have "\<exists>b. convertExtraDataToStrandsContentBlock lc d ufs cache = Normal b"
          by (simp add: convertExtraDataToStrandsContentBlock_def)
        with own Some show ?thesis by auto
      next
        case no_own: None
        show ?thesis
        proof (cases "source_data (source d) \<in> set Object_prototype_names")
          case inherited: True
          with b None Some no_own have "base64Data_of d ufs cache = Throw TypeError"
            by simp
          then have "convertExtraDataToStrandsContentBlock lc d ufs cache = Throw TypeError"
            by (simp add: convertExtraDataToStrandsContentBlock_def)
          with True None Some no_own inherited show ?thesis by auto
        next
          case False
          with b None Some no_own have "base64Data_of d ufs cache = Normal None"
            by simp
          then have "convertExtraDataToStrandsContentBlock lc d ufs cache = Normal None"
            by (simp add: convertExtraDataToStrandsContentBlock_def)
          with False Some show ?thesis by simp
        qed
      qed
    qed
  qed
qed

text \<open>
  What holds for a media type that the table of its kind does not list: when its lower-case
  form is not the name of a property of \<^verbatim>\<open>Object.prototype\<close> either, the attachment is
  kept and the format of its block is \<^verbatim>\<open>undefined\<close>.
\<close>

lemma unmapped_mime_type_block:
  assumes "base64Data_of d ufs cache = Normal (Some bytes)" and "bytes \<noteq> []"
    and "lc (mediaType (source d)) \<notin> set Object_prototype_names"
  shows "extraData_type d = js ''image'' \<Longrightarrow>
           lc (mediaType (source d)) \<notin> fst ` set image_formatMap \<Longrightarrow>
           convertExtraDataToStrandsContentBlock lc d ufs cache = Normal (Some (ImageBlock Missing bytes))"
    and "extraData_type d = js ''file'' \<Longrightarrow>
           lc (mediaType (source d)) \<notin> fst ` set document_formatMap \<Longrightarrow>
           convertExtraDataToStrandsContentBlock lc d ufs cache
             = Normal (Some (DocumentBlock Missing (extraData_name d) bytes))"
    and "extraData_type d = js ''video'' \<Longrightarrow>
           lc (mediaType (source d)) \<notin> fst ` set video_formatMap \<Longrightarrow>
           convertExtraDataToStrandsContentBlock lc d ufs cache = Normal (Some (VideoBlock Missing bytes))"
proof -
  have ne: "js ''file'' \<noteq> js ''image''" "js ''video'' \<noteq> js ''image''" "js ''video'' \<noteq> js ''file''"
    by (simp_all add: js_def)
  have miss: "x \<notin> fst ` set table \<Longrightarrow> map_of table x = None" for x :: jsstring and table :: "(jsstring \<times> 'b) list"
    by (simp add: map_of_eq_None_iff)
  show "extraData_type d = js ''image'' \<Longrightarrow>
           lc (mediaType (source d)) \<notin> fst ` set image_formatMap \<Longrightarrow>
           convertExtraDataToStrandsContentBlock lc d ufs cache = Normal (Some (ImageBlock Missing bytes))"
    using assms
    by (simp add: convertExtraDataToStrandsContentBlock_def getImageFormatFromMimeType_def
          literal_get_def miss)
  show "extraData_type d = js ''file'' \<Longrightarrow>
           lc (mediaType (source d)) \<notin> fst ` set document_formatMap \<Longrightarrow>
           convertExtraDataToStrandsContentBlock lc d ufs cache
             = Normal (Some (DocumentBlock Missing (extraData_name d) bytes))"
    using assms ne
    by (simp add: convertExtraDataToStrandsContentBlock_def getDocumentFormatFromMimeType_def
          literal_get_def miss)
  show "extraData_type d = js ''video'' \<Longrightarrow>
           lc (mediaType (source d)) \<notin> fst ` set video_formatMap \<Longrightarrow>
           convertExtraDataToStrandsContentBlock lc d ufs cache = Normal (Some (VideoBlock Missing bytes))"
    using assms ne
    by (simp add: convertExtraDataToStrandsContentBlock_def getVideoFormatFromMimeType_def
          literal_get_def miss)
qed

text \<open>
  C6. The attachment is an image with inline bytes and the media type \<^verbatim>\<open>constructor\<close>, which
  the image table does not list. The block is produced, but its format is not
  \<^verbatim>\<open>undefined\<close>: the read of the table finds the property \<^verbatim>\<open>constructor\<close> that the object
  literal inherits.
\<close>

theorem inherited_member_as_format:
  "map_of image_formatMap (ascii_toLowerCase (js ''constructor'')) = None \<and>
   convertExtraDataToStrandsContentBlock ascii_toLowerCase
     \<lparr>extraData_type = js ''image'', extraData_name = js ''a'',
      source = \<lparr>source_type = js ''base64'', mediaType = js ''constructor'',
                source_data = js ''QUJD''\<rparr>\<rparr> None None
     = Normal (Some (ImageBlock (Proto (js ''constructor'')) (js ''QUJD'')))"
  by (simp add: convertExtraDataToStrandsContentBlock_def base64Data_of_def
        getImageFormatFromMimeType_def literal_get_def image_formatMap_def
        Object_prototype_names_def ascii_toLowerCase_def js_def)

section \<open>The raw-file path\<close>

lemma list_ex_fileName_class:
  "list_ex (\<lambda>a. atom_matches a c) fileName_class = kept_in_fileName c"
  by (auto simp: fileName_class_def kept_in_fileName_def isTrimmed_def)

text \<open>
  C8, as the code has it. The name of a document block made from a raw file is the name of
  the file, code unit by code unit, where a code unit is kept when it is a letter, a digit,
  a white-space or line-terminator code unit (what \<^verbatim>\<open>\s\<close> matches, tab and newline
  among them), a hyphen, a parenthesis or a square bracket, and is \<^verbatim>\<open>X\<close> otherwise.
\<close>

theorem document_name_sanitized:
  assumes "convertFileToStrandsContentBlock lc file base64Data = Some (DocumentBlock fmt name bytes)"
  shows "length name = length (file_name file) \<and>
         (\<forall>i < length name.
            name ! i = (if kept_in_fileName (file_name file ! i) then file_name file ! i
                        else of_char CHR ''X''))"
proof -
  from assms have "name = replace_fileName (file_name file)"
    by (simp add: convertFileToStrandsContentBlock_def Let_def split: if_splits)
  then show ?thesis
    by (simp add: replace_fileName_def list_ex_fileName_class)
qed

theorem document_name_sanitized_witness:
  "convertFileToStrandsContentBlock ascii_toLowerCase
     \<lparr>file_name = js ''a b_1.txt'', file_type = js ''text/plain''\<rparr> (js ''QUJD'')
     = Some (DocumentBlock (Own txt) (js ''a bX1Xtxt'') (js ''QUJD'')) \<and>
   length (js ''a bX1Xtxt'') = length (file_name \<lparr>file_name = js ''a b_1.txt'', file_type = js ''text/plain''\<rparr>) \<and>
   js ''a bX1Xtxt'' ! 3 = of_char CHR ''X''"
proof -
  have ev: "convertFileToStrandsContentBlock ascii_toLowerCase
     \<lparr>file_name = js ''a b_1.txt'', file_type = js ''text/plain''\<rparr> (js ''QUJD'')
     = Some (DocumentBlock (Own txt) (js ''a bX1Xtxt'') (js ''QUJD''))"
    by (simp add: convertFileToStrandsContentBlock_def Let_def startsWith_def replace_fileName_def
        fileName_class_def isTrimmed_def isWhiteSpace_def isLineTerminator_def
        getDocumentFormatFromMimeType_def literal_get_def document_formatMap_def
        ascii_toLowerCase_def js_def)
  from document_name_sanitized [OF ev] have
    "length (js ''a bX1Xtxt'') = length (file_name \<lparr>file_name = js ''a b_1.txt'', file_type = js ''text/plain''\<rparr>)"
    and "\<forall>i < length (js ''a bX1Xtxt''). js ''a bX1Xtxt'' ! i =
           (if kept_in_fileName (file_name \<lparr>file_name = js ''a b_1.txt'', file_type = js ''text/plain''\<rparr> ! i)
            then file_name \<lparr>file_name = js ''a b_1.txt'', file_type = js ''text/plain''\<rparr> ! i
            else of_char CHR ''X'')"
    by blast+
  then have "js ''a bX1Xtxt'' ! 3 = of_char CHR ''X''"
    by (simp add: js_def)
  with ev document_name_sanitized [OF ev] show ?thesis by blast
qed

text \<open>
  C8 as stated fails: a tab in the name of the file is kept in the name of the block,
  where the set of the statement (with the space character only) would replace it.
\<close>

theorem document_name_tab_counterexample:
  "convertFileToStrandsContentBlock ascii_toLowerCase
     \<lparr>file_name = [0x61, 0x09, 0x62], file_type = js ''text/plain''\<rparr> (js ''QUJD'')
     = Some (DocumentBlock (Own txt) [0x61, 0x09, 0x62] (js ''QUJD'')) \<and>
   spec_fileName [0x61, 0x09, 0x62] = [0x61, 0x58, 0x62]"
  by (simp add: convertFileToStrandsContentBlock_def Let_def startsWith_def replace_fileName_def
        fileName_class_def isTrimmed_def isWhiteSpace_def isLineTerminator_def spec_fileName_def
        getDocumentFormatFromMimeType_def literal_get_def document_formatMap_def
        ascii_toLowerCase_def js_def)

section \<open>The stream processor, frame by frame\<close>

lemmas handler_defs =
  processEvent_def try_block_def handle_contentBlockStart_def handle_contentBlockDelta_def
  handle_contentBlockStop_def handle_messageStop_def handle_metadata_def handle_error_def
  handle_redactContent_def bindS_def frame_def js_or_def

lemma processEvent_toolUse_start:
  "JSON_parse t = Normal (contentBlockStart_toolUse_frame name further_toolUse further) \<Longrightarrow>
   processEvent JSON_parse this t =
     (Normal (Some (with_trace (String (js [CHR 0x60, CHR 0x60, CHR 0x60] @ name @ [0x0A])))),
      this\<lparr>currentContentBlockType := Some ToolUse, toolUseBuffer := []\<rparr>)"
  by (simp add: handler_defs contentBlockStart_toolUse_frame_def js_def)

lemma processEvent_toolUse_delta:
  "JSON_parse t = Normal (contentBlockDelta_toolUse_frame input further) \<Longrightarrow>
   processEvent JSON_parse this t =
     (Normal (Some (with_trace (String input))),
      this\<lparr>currentContentBlockType := Some ToolUse, toolUseBuffer := toolUseBuffer this @ input\<rparr>)"
  by (simp add: handler_defs contentBlockDelta_toolUse_frame_def js_def)

lemma processEvent_stop:
  "JSON_parse t = Normal (contentBlockStop_frame further) \<Longrightarrow>
   processEvent JSON_parse this t =
     (if currentContentBlockType this = Some Text then Normal (Some (text_only (String [0x0A])))
      else if currentContentBlockType this = Some ToolUse
      then Normal (Some (with_trace (String ([0x0A] @ js [CHR 0x60, CHR 0x60, CHR 0x60] @ [0x0A]))))
      else Normal None,
      this\<lparr>currentContentBlockType := None\<rparr>)"
  by (simp add: handler_defs contentBlockStop_frame_def js_def)

lemma processEvent_messageStart:
  "JSON_parse t = Normal (messageStart_frame further) \<Longrightarrow>
   processEvent JSON_parse this t = (Normal None, reset this)"
  by (simp add: handler_defs messageStart_frame_def js_def)

lemma processEvent_messageStop:
  "JSON_parse t = Normal (messageStop_frame further) \<Longrightarrow>
   processEvent JSON_parse this t = (Normal None, reset this)"
  by (simp add: handler_defs messageStop_frame_def js_def)

text \<open>
  C2. On a processor whose block kind is none, the frames content-block-start (tool use,
  name \<open>X\<close>), content-block-delta (tool use, input \<open>s\<close>) and content-block-stop, processed
  in this order, return three records with the empty text and the traces
  \<^verbatim>\<open>```X\n\<close>, \<open>s\<close> and \<^verbatim>\<open>\n```\n\<close>; afterwards the block kind is none again (and the tool
  buffer holds \<open>s\<close>).
\<close>

theorem tool_use_round_trip:
  assumes "JSON_parse t1 = Normal (contentBlockStart_toolUse_frame X further_toolUse further1)"
    and "JSON_parse t2 = Normal (contentBlockDelta_toolUse_frame s further2)"
    and "JSON_parse t3 = Normal (contentBlockStop_frame further3)"
    and "currentContentBlockType this = None"
  shows "processEvents JSON_parse this [t1, t2, t3] =
           ([Normal (Some \<lparr>out_text = String [],
                           out_trace = Some (String (js [CHR 0x60, CHR 0x60, CHR 0x60] @ X @ [0x0A])),
                           out_metadata = None\<rparr>),
             Normal (Some \<lparr>out_text = String [], out_trace = Some (String s),
                           out_metadata = None\<rparr>),
             Normal (Some \<lparr>out_text = String [],
                           out_trace = Some (String ([0x0A] @ js [CHR 0x60, CHR 0x60, CHR 0x60] @ [0x0A])),
                           out_metadata = None\<rparr>)],
            this\<lparr>currentContentBlockType := None, toolUseBuffer := s\<rparr>)"
  using assms
  by (simp add: processEvent_toolUse_start processEvent_toolUse_delta processEvent_stop
        with_trace_def)

theorem tool_use_round_trip_witness:
  "processEvents
     (table_parse
        [(js ''start'', contentBlockStart_toolUse_frame (js ''X'') [(js ''toolUseId'', String (js ''t1''))] []),
         (js ''delta'', contentBlockDelta_toolUse_frame (js ''{'' @ [0x22] @ js ''a'' @ [0x22] @ js '':1}'') []),
         (js ''stop'', contentBlockStop_frame [])])
     \<lparr>currentContentBlockType = None, toolUseBuffer = js ''old''\<rparr>
     [js ''start'', js ''delta'', js ''stop'']
   = ([Normal (Some \<lparr>out_text = String [], out_trace = Some (String (js [CHR 0x60, CHR 0x60, CHR 0x60] @ js ''X'' @ [0x0A])),
                     out_metadata = None\<rparr>),
       Normal (Some \<lparr>out_text = String [],
                     out_trace = Some (String (js ''{'' @ [0x22] @ js ''a'' @ [0x22] @ js '':1}'')),
                     out_metadata = None\<rparr>),
       Normal (Some \<lparr>out_text = String [],
                     out_trace = Some (String ([0x0A] @ js [CHR 0x60, CHR 0x60, CHR 0x60] @ [0x0A])),
                     out_metadata = None\<rparr>)],
      \<lparr>currentContentBlockType = None,
       toolUseBuffer = js ''{'' @ [0x22] @ js ''a'' @ [0x22] @ js '':1}''\<rparr>)"
proof -
  let ?P = "table_parse
        [(js ''start'', contentBlockStart_toolUse_frame (js ''X'') [(js ''toolUseId'', String (js ''t1''))] []),
         (js ''delta'', contentBlockDelta_toolUse_frame (js ''{'' @ [0x22] @ js ''a'' @ [0x22] @ js '':1}'') []),
         (js ''stop'', contentBlockStop_frame [])]"
  have 1: "?P (js ''start'') = Normal (contentBlockStart_toolUse_frame (js ''X'') [(js ''toolUseId'', String (js ''t1''))] [])"
    by (simp add: table_parse_def js_def)
  have 2: "?P (js ''delta'') = Normal (contentBlockDelta_toolUse_frame (js ''{'' @ [0x22] @ js ''a'' @ [0x22] @ js '':1}'') [])"
    by (simp add: table_parse_def js_def)
  have 3: "?P (js ''stop'') = Normal (contentBlockStop_frame [])"
    by (simp add: table_parse_def js_def)
  have 4: "currentContentBlockType \<lparr>currentContentBlockType = None, toolUseBuffer = js ''old''\<rparr> = None"
    by simp
  from tool_use_round_trip [OF 1 2 3 4] show ?thesis
    by simp
qed

text \<open>
  C3. \<^verbatim>\<open>processEvent\<close> never throws: for every parser, state and frame text it returns a
  record or \<^verbatim>\<open>null\<close>. When the text does not deserialize, it returns \<^verbatim>\<open>null\<close> and the
  state, block kind and tool buffer, is as before.
\<close>

theorem processEvent_never_throws:
  "(\<exists>result this'. processEvent JSON_parse this eventText = (Normal result, this')) \<and>
   (\<forall>error. JSON_parse eventText = Throw error \<longrightarrow>
      processEvent JSON_parse this eventText = (Normal None, this))"
proof
  show "\<exists>result this'. processEvent JSON_parse this eventText = (Normal result, this')"
  proof (cases "try_block JSON_parse this eventText")
    case (Pair outcome this')
    then show ?thesis
      by (cases outcome) (simp_all add: processEvent_def)
  qed
next
  show "\<forall>error. JSON_parse eventText = Throw error \<longrightarrow>
      processEvent JSON_parse this eventText = (Normal None, this)"
    by (simp add: processEvent_def try_block_def bindS_def)
qed

theorem processEvent_never_throws_witness:
  "table_parse [] (js ''{not json'') = Throw SyntaxError \<and>
   processEvent (table_parse []) \<lparr>currentContentBlockType = Some ToolUse, toolUseBuffer = js ''{''\<rparr>
       (js ''{not json'')
     = (Normal None, \<lparr>currentContentBlockType = Some ToolUse, toolUseBuffer = js ''{''\<rparr>)"
proof -
  have t: "table_parse [] (js ''{not json'') = Throw SyntaxError"
    by (simp add: table_parse_def)
  from processEvent_never_throws [of "table_parse []"
      "\<lparr>currentContentBlockType = Some ToolUse, toolUseBuffer = js ''{''\<rparr>" "js ''{not json''"]
  have "\<forall>error. table_parse [] (js ''{not json'') = Throw error \<longrightarrow>
      processEvent (table_parse []) \<lparr>currentContentBlockType = Some ToolUse, toolUseBuffer = js ''{''\<rparr>
        (js ''{not json'')
      = (Normal None, \<lparr>currentContentBlockType = Some ToolUse, toolUseBuffer = js ''{''\<rparr>)"
    by (rule conjunct2)
  with t show ?thesis by blast
qed

text \<open>
  The \<^verbatim>\<open>catch\<close> clause also covers a frame that deserializes but is not of the expected
  shape. Here the name of the tool is an object that cannot be converted to a string: the
  template literal throws after the two assignments, which stay.
\<close>

lemma throw_after_assignment:
  "processEvent
     (table_parse [(js ''bad'',
        frame (js ''contentBlockStart'')
          (Object [(js ''start'',
             Object [(js ''toolUse'', Object [(js ''name'', Object [(js ''toString'', Null)])])])]))])
     \<lparr>currentContentBlockType = Some Text, toolUseBuffer = js ''old''\<rparr> (js ''bad'')
   = (Normal None, \<lparr>currentContentBlockType = Some ToolUse, toolUseBuffer = []\<rparr>)"
  by (simp add: handler_defs table_parse_def js_def)

text \<open>
  C4, as the code has it. For a frame with one of the five error variants, the state is
  unchanged and the record returned has the text \<^verbatim>\<open>Error: \<close> followed by the message of the
  exception when that message is a string that is not empty; when there is no message, or
  the message is the empty string, the text is \<^verbatim>\<open>Error: An error occurred\<close>.
\<close>

theorem error_frame_text:
  assumes v: "variant \<in> set error_variants"
    and p: "JSON_parse eventText = Normal (error_frame variant exception)"
  shows "(\<forall>m. map_of exception (js ''message'') = Some (String m) \<and> m \<noteq> [] \<longrightarrow>
            processEvent JSON_parse this eventText =
              (Normal (Some \<lparr>out_text = String (js ''Error: '' @ m), out_trace = None,
                              out_metadata = None\<rparr>), this)) \<and>
         (map_of exception (js ''message'') = None \<or>
          map_of exception (js ''message'') = Some (String []) \<longrightarrow>
            processEvent JSON_parse this eventText =
              (Normal (Some \<lparr>out_text = String (js ''Error: An error occurred''),
                              out_trace = None, out_metadata = None\<rparr>), this))"
proof -
  from v consider "variant = js ''internalServerException''"
    | "variant = js ''modelStreamErrorException''"
    | "variant = js ''serviceUnavailableException''"
    | "variant = js ''throttlingException''"
    | "variant = js ''validationException''"
    by (auto simp: error_variants_def)
  then show ?thesis
  proof cases
    case 1
    with p show ?thesis
      by (auto simp: handler_defs error_frame_def text_only_def js_def)
  next
    case 2
    with p show ?thesis
      by (auto simp: handler_defs error_frame_def text_only_def js_def)
  next
    case 3
    with p show ?thesis
      by (auto simp: handler_defs error_frame_def text_only_def js_def)
  next
    case 4
    with p show ?thesis
      by (auto simp: handler_defs error_frame_def text_only_def js_def)
  next
    case 5
    with p show ?thesis
      by (auto simp: handler_defs error_frame_def text_only_def js_def)
  qed
qed

theorem error_frame_text_witness:
  "js ''throttlingException'' \<in> set error_variants \<and>
   processEvent
     (table_parse [(js ''e1'', error_frame (js ''throttlingException'')
                                 [(js ''message'', String (js ''rate limited''))]),
                   (js ''e2'', error_frame (js ''throttlingException'') [])])
     \<lparr>currentContentBlockType = Some Text, toolUseBuffer = []\<rparr> (js ''e1'')
     = (Normal (Some \<lparr>out_text = String (js ''Error: rate limited''), out_trace = None,
                      out_metadata = None\<rparr>),
        \<lparr>currentContentBlockType = Some Text, toolUseBuffer = []\<rparr>) \<and>
   processEvent
     (table_parse [(js ''e1'', error_frame (js ''throttlingException'')
                                 [(js ''message'', String (js ''rate limited''))]),
                   (js ''e2'', error_frame (js ''throttlingException'') [])])
     \<lparr>currentContentBlockType = Some Text, toolUseBuffer = []\<rparr> (js ''e2'')
     = (Normal (Some \<lparr>out_text = String (js ''Error: An error occurred''), out_trace = None,
                      out_metadata = None\<rparr>),
        \<lparr>currentContentBlockType = Some Text, toolUseBuffer = []\<rparr>)"
proof -
  let ?P = "table_parse [(js ''e1'', error_frame (js ''throttlingException'')
                                 [(js ''message'', String (js ''rate limited''))]),
                   (js ''e2'', error_frame (js ''throttlingException'') [])]"
  let ?st = "\<lparr>currentContentBlockType = Some Text, toolUseBuffer = []\<rparr>"
  have v: "js ''throttlingException'' \<in> set error_variants"
    by (simp add: error_variants_def)
  have p1: "?P (js ''e1'') = Normal (error_frame (js ''throttlingException'')
                                 [(js ''message'', String (js ''rate limited''))])"
    by (simp add: table_parse_def js_def)
  have p2: "?P (js ''e2'') = Normal (error_frame (js ''throttlingException'') [])"
    by (simp add: table_parse_def js_def)
  have m1: "map_of [(js ''message'', String (js ''rate limited''))] (js ''message'')
              = Some (String (js ''rate limited'')) \<and> js ''rate limited'' \<noteq> []"
    by (simp add: js_def)
  have m2: "map_of [] (js ''message'') = None \<or> map_of [] (js ''message'') = Some (String [])"
    by simp
  from error_frame_text [where JSON_parse = ?P and eventText = "js ''e1''" and this = ?st,
      OF v p1, THEN conjunct1, rule_format, OF m1]
  have 1: "processEvent ?P ?st (js ''e1'')
     = (Normal (Some \<lparr>out_text = String (js ''Error: rate limited''), out_trace = None,
                      out_metadata = None\<rparr>), ?st)"
    by (simp add: js_def)
  from error_frame_text [where JSON_parse = ?P and eventText = "js ''e2''" and this = ?st,
      OF v p2, THEN conjunct2, rule_format, OF m2]
  have 2: "processEvent ?P ?st (js ''e2'')
     = (Normal (Some \<lparr>out_text = String (js ''Error: An error occurred''), out_trace = None,
                      out_metadata = None\<rparr>), ?st)" .
  from v 1 2 show ?thesis by blast
qed

text \<open>
  C4 as stated fails at a message that is supplied and empty: the text is the fallback,
  not \<^verbatim>\<open>Error: \<close> followed by the message.
\<close>

theorem error_frame_empty_message_counterexample:
  "processEvent
     (table_parse [(js ''e'', error_frame (js ''throttlingException'')
                                [(js ''message'', String [])])])
     \<lparr>currentContentBlockType = None, toolUseBuffer = []\<rparr> (js ''e'')
     = (Normal (Some \<lparr>out_text = String (js ''Error: An error occurred''), out_trace = None,
                      out_metadata = None\<rparr>),
        \<lparr>currentContentBlockType = None, toolUseBuffer = []\<rparr>) \<and>
   js ''Error: An error occurred'' \<noteq> js ''Error: '' @ []"
  by (simp add: handler_defs error_frame_def table_parse_def text_only_def js_def)

text \<open>
  C7, as the code has it. For a content-block-start frame whose start payload is a text:
  when the text is not empty, the block kind becomes text (the tool buffer stays) and the
  record returned has that text; when the text is the empty string, the test
  \<^verbatim>\<open>start.text\<close> fails, nothing is returned and the state is unchanged.
\<close>

theorem contentBlockStart_text:
  assumes "JSON_parse eventText = Normal (contentBlockStart_text_frame t further)"
  shows "(t \<noteq> [] \<longrightarrow>
            processEvent JSON_parse this eventText =
              (Normal (Some \<lparr>out_text = String t, out_trace = None, out_metadata = None\<rparr>),
               this\<lparr>currentContentBlockType := Some Text\<rparr>)) \<and>
         (t = [] \<longrightarrow> processEvent JSON_parse this eventText = (Normal None, this))"
  using assms
  by (simp add: handler_defs contentBlockStart_text_frame_def text_only_def js_def)

theorem contentBlockStart_text_witness:
  "processEvent (table_parse [(js ''f'', contentBlockStart_text_frame (js ''Hello'') [])])
     \<lparr>currentContentBlockType = None, toolUseBuffer = []\<rparr> (js ''f'')
     = (Normal (Some \<lparr>out_text = String (js ''Hello''), out_trace = None, out_metadata = None\<rparr>),
        \<lparr>currentContentBlockType = Some Text, toolUseBuffer = []\<rparr>)"
proof -
  have p: "table_parse [(js ''f'', contentBlockStart_text_frame (js ''Hello'') [])] (js ''f'')
             = Normal (contentBlockStart_text_frame (js ''Hello'') [])"
    by (simp add: table_parse_def)
  have ne: "js ''Hello'' \<noteq> []"
    by (simp add: js_def)
  from contentBlockStart_text [where JSON_parse =
        "table_parse [(js ''f'', contentBlockStart_text_frame (js ''Hello'') [])]"
      and eventText = "js ''f''"
      and this = "\<lparr>currentContentBlockType = None, toolUseBuffer = []\<rparr>",
      OF p, THEN conjunct1, rule_format, OF ne]
  show ?thesis by simp
qed

text \<open>
  C7 as stated fails at the empty start text: on a processor with block kind none the call
  returns \<^verbatim>\<open>null\<close> and the block kind stays none.
\<close>

theorem contentBlockStart_empty_text_counterexample:
  "processEvent (table_parse [(js ''f'', contentBlockStart_text_frame [] [])])
     \<lparr>currentContentBlockType = None, toolUseBuffer = []\<rparr> (js ''f'')
     = (Normal None, \<lparr>currentContentBlockType = None, toolUseBuffer = []\<rparr>)"
  by (simp add: handler_defs contentBlockStart_text_frame_def table_parse_def js_def)

text \<open>
  C9. A content-block-stop frame changes the block kind only, to none: the tool buffer is as
  before. It is emptied by a content-block-start frame for a tool use, by a message-start
  and a message-stop frame and by \<^verbatim>\<open>reset\<close>; after the frames of one tool use (start,
  delta with input \<open>s\<close>, stop) it still holds \<open>s\<close>.
\<close>

theorem contentBlockStop_keeps_toolUseBuffer:
  "(JSON_parse eventText = Normal (contentBlockStop_frame further) \<longrightarrow>
      snd (processEvent JSON_parse this eventText) = this\<lparr>currentContentBlockType := None\<rparr> \<and>
      toolUseBuffer (snd (processEvent JSON_parse this eventText)) = toolUseBuffer this) \<and>
   (JSON_parse eventText = Normal (contentBlockStart_toolUse_frame name further_toolUse further) \<longrightarrow>
      toolUseBuffer (snd (processEvent JSON_parse this eventText)) = []) \<and>
   (JSON_parse eventText = Normal (messageStart_frame further) \<longrightarrow>
      toolUseBuffer (snd (processEvent JSON_parse this eventText)) = []) \<and>
   (JSON_parse eventText = Normal (messageStop_frame further) \<longrightarrow>
      toolUseBuffer (snd (processEvent JSON_parse this eventText)) = []) \<and>
   toolUseBuffer (reset this) = [] \<and>
   (\<forall>t1 t2 t3 X s further_toolUse further1 further2 further3.
      JSON_parse t1 = Normal (contentBlockStart_toolUse_frame X further_toolUse further1) \<and>
      JSON_parse t2 = Normal (contentBlockDelta_toolUse_frame s further2) \<and>
      JSON_parse t3 = Normal (contentBlockStop_frame further3) \<longrightarrow>
      toolUseBuffer (snd (processEvents JSON_parse this [t1, t2, t3])) = s)"
  by (simp add: processEvent_stop processEvent_toolUse_start processEvent_toolUse_delta
        processEvent_messageStart processEvent_messageStop reset_def)

theorem contentBlockStop_keeps_toolUseBuffer_witness:
  "processEvent (table_parse [(js ''stop'', contentBlockStop_frame [(js ''contentBlockIndex'', Number (js ''1''))])])
     \<lparr>currentContentBlockType = Some ToolUse, toolUseBuffer = js ''{}''\<rparr> (js ''stop'')
   = (Normal (Some \<lparr>out_text = String [],
                    out_trace = Some (String ([0x0A] @ js [CHR 0x60, CHR 0x60, CHR 0x60] @ [0x0A])),
                    out_metadata = None\<rparr>),
      \<lparr>currentContentBlockType = None, toolUseBuffer = js ''{}''\<rparr>)"
proof -
  let ?P = "table_parse [(js ''stop'', contentBlockStop_frame [(js ''contentBlockIndex'', Number (js ''1''))])]"
  let ?st = "\<lparr>currentContentBlockType = Some ToolUse, toolUseBuffer = js ''{}''\<rparr>"
  have p: "?P (js ''stop'') = Normal (contentBlockStop_frame [(js ''contentBlockIndex'', Number (js ''1''))])"
    by (simp add: table_parse_def)
  from contentBlockStop_keeps_toolUseBuffer [where JSON_parse = ?P and eventText = "js ''stop''"
      and further = "[(js ''contentBlockIndex'', Number (js ''1''))]" and this = ?st,
      THEN conjunct1, rule_format, OF p]
  have s: "snd (processEvent ?P ?st (js ''stop'')) = \<lparr>currentContentBlockType = None, toolUseBuffer = js ''{}''\<rparr>"
    by simp
  have f: "fst (processEvent ?P ?st (js ''stop'')) = Normal (Some \<lparr>out_text = String [],
                    out_trace = Some (String ([0x0A] @ js [CHR 0x60, CHR 0x60, CHR 0x60] @ [0x0A])),
                    out_metadata = None\<rparr>)"
    by (simp add: processEvent_stop [where JSON_parse = ?P and t = "js ''stop''", OF p] with_trace_def)
  from s f show ?thesis
    by (simp add: prod_eq_iff)
qed

text \<open>
  C10. An attachment whose source is inline with the empty string as data gives no block:
  the empty payload fails the same test as a payload that did not resolve.
\<close>

theorem inline_empty_data_dropped:
  "source_type (source d) = js ''base64'' \<Longrightarrow> source_data (source d) = [] \<Longrightarrow>
   convertExtraDataToStrandsContentBlock lc d ufs cache = Normal None"
  by (simp add: convertExtraDataToStrandsContentBlock_def base64Data_of_def)

theorem inline_empty_data_dropped_witness:
  "source_type (source \<lparr>extraData_type = js ''image'', extraData_name = js ''a.png'',
      source = \<lparr>source_type = js ''base64'', mediaType = js ''image/png'', source_data = []\<rparr>\<rparr>)
     = js ''base64'' \<and>
   source_data (source \<lparr>extraData_type = js ''image'', extraData_name = js ''a.png'',
      source = \<lparr>source_type = js ''base64'', mediaType = js ''image/png'', source_data = []\<rparr>\<rparr>)
     = [] \<and>
   convertExtraDataToStrandsContentBlock ascii_toLowerCase
     \<lparr>extraData_type = js ''image'', extraData_name = js ''a.png'',
      source = \<lparr>source_type = js ''base64'', mediaType = js ''image/png'', source_data = []\<rparr>\<rparr>
     None None = Normal None"
  using inline_empty_data_dropped [of
     "\<lparr>extraData_type = js ''image'', extraData_name = js ''a.png'',
      source = \<lparr>source_type = js ''base64'', mediaType = js ''image/png'', source_data = []\<rparr>\<rparr>"
     ascii_toLowerCase None None]
  by simp

end
